theory Spec2Isabelle
  imports Main "HOL-Library.Char_ord" "HOL-Library.List_Lexorder"
begin

section \<open>Text\<close>

text \<open>
  Python's \<open>str\<close> is modelled by \<^typ>\<open>string\<close>, the UTF-8 bytes of the text: on
  well-formed UTF-8, concatenation, \<open>join\<close>, the substring test and the code-point order
  of \<open>sorted\<close> are the same on the bytes as on the code points. The characters the
  program writes beyond ASCII (the dashes and arrows of the formatters) are spelled out
  as their bytes.

  The three methods of \<open>str\<close> that the program calls and that rest on the tables of the
  Unicode standard, \<open>str.lower\<close>, \<open>str.rstrip\<close> and \<open>str.strip\<close>, are not written out:
  every function that calls one of them takes them as the argument \<open>py\<close>, and every
  theorem holds whatever they are, so for those of Python in particular.
\<close>

record str_methods =
  lower :: "string \<Rightarrow> string"
  rstrip :: "string \<Rightarrow> string"
  strip :: "string \<Rightarrow> string"

text \<open>
  On text that is ASCII throughout, the three methods are the following: \<open>lower\<close> maps
  \<open>A\<close> to \<open>Z\<close> to \<open>a\<close> to \<open>z\<close>, and the white space the other two remove is the
  characters 9 to 13 and 28 to 32. The examples further below are ASCII and are
  evaluated with these.
\<close>

definition ascii_lower_char :: "char \<Rightarrow> char" where
  "ascii_lower_char c =
     (let n = (of_char c :: nat) in if 65 \<le> n \<and> n \<le> 90 then char_of (n + 32) else c)"

definition ascii_space :: "char \<Rightarrow> bool" where
  "ascii_space c =
     (let n = (of_char c :: nat) in (9 \<le> n \<and> n \<le> 13) \<or> (28 \<le> n \<and> n \<le> 32))"

definition ascii_rstrip :: "string \<Rightarrow> string" where
  "ascii_rstrip s = rev (dropWhile ascii_space (rev s))"

definition ascii_methods :: str_methods where
  "ascii_methods =
     \<lparr>lower = map ascii_lower_char,
      rstrip = ascii_rstrip,
      strip = (\<lambda>s. dropWhile ascii_space (ascii_rstrip s))\<rparr>"

text \<open>\<open>sep.join(parts)\<close>.\<close>

fun join :: "string \<Rightarrow> string list \<Rightarrow> string" where
  "join sep [] = []"
| "join sep [x] = x"
| "join sep (x # y # ys) = x @ sep @ join sep (y # ys)"

text \<open>\<open>q in s\<close> on strings: \<open>q\<close> occurs in \<open>s\<close> as a contiguous run.\<close>

fun startswith :: "string \<Rightarrow> string \<Rightarrow> bool" where
  "startswith s [] = True"
| "startswith [] (q # qs) = False"
| "startswith (c # s) (q # qs) = (c = q \<and> startswith s qs)"

fun str_in :: "string \<Rightarrow> string \<Rightarrow> bool" where
  "str_in q [] = (q = [])"
| "str_in q (c # s) = (startswith (c # s) q \<or> str_in q s)"

text \<open>\<open>str(n)\<close> for a length \<open>n\<close>.\<close>

definition digit_char :: "nat \<Rightarrow> char" where
  "digit_char d = char_of (48 + d)"

fun str_of_nat :: "nat \<Rightarrow> string" where
  "str_of_nat n =
     (if n < 10 then [digit_char n] else str_of_nat (n div 10) @ [digit_char (n mod 10)])"

declare str_of_nat.simps [simp del]

definition nl :: string where
  "nl = [CHR 0x0A]"

definition em_dash :: string where
  "em_dash = [CHR 0xE2, CHR 0x80, CHR 0x94]"

definition arrow :: string where
  "arrow = [CHR 0xE2, CHR 0x86, CHR 0x92]"

definition double_bar :: string where
  "double_bar = [CHR 0xE2, CHR 0x95, CHR 0x90]"

text \<open>\<open>sorted({...})\<close> on a collection of strings: duplicates removed, code-point order.\<close>

definition sorted_set :: "string list \<Rightarrow> string list" where
  "sorted_set xs = sort (remdups xs)"

section \<open>The document tree\<close>

text \<open>
  An \<open>xml.etree.ElementTree.Element\<close>: its tag, its attribute dictionary and its
  children in document order. \<open>ET.fromstring\<close> itself is a library function and is
  taken as a parameter further below.
\<close>

datatype xml = Element (tag: string) (attrib: "(string \<times> string) list") (children: "xml list")

text \<open>\<open>el.get(k)\<close>, \<open>el.get(k, d)\<close>, \<open>el.findall(t)\<close> and \<open>el.find(t)\<close>.\<close>

definition get :: "xml \<Rightarrow> string \<Rightarrow> string option" where
  "get el k = map_of (attrib el) k"

definition get_or :: "xml \<Rightarrow> string \<Rightarrow> string \<Rightarrow> string" where
  "get_or el k d = (case get el k of None \<Rightarrow> d | Some v \<Rightarrow> v)"

definition findall :: "xml \<Rightarrow> string \<Rightarrow> xml list" where
  "findall el t = filter (\<lambda>c. tag c = t) (children el)"

definition find_first :: "xml \<Rightarrow> string \<Rightarrow> xml option" where
  "find_first el t = (case findall el t of [] \<Rightarrow> None | c # _ \<Rightarrow> Some c)"

text \<open>Truth value of an optional string: \<open>None\<close> and the empty string are false.\<close>

fun truthy :: "string option \<Rightarrow> bool" where
  "truthy None = False"
| "truthy (Some s) = (s \<noteq> [])"

section \<open>Type resolution\<close>

text \<open>
  \<open>SDEFParser._resolve_type\<close>. The loop over the nested \<open>type\<close> children appends one
  part per child to \<open>parts\<close>.
\<close>

definition type_part :: "xml \<Rightarrow> string" where
  "type_part t =
     (let name = get_or t ''type'' ''any'' in
      if get t ''list'' = Some ''yes'' then ''list of '' @ name else name)"

definition resolve_type :: "xml \<Rightarrow> string" where
  "resolve_type el =
     (if truthy (get el ''type'') then
        (let t = get_or el ''type'' ''any'' in
         if get el ''list'' = Some ''yes'' then ''list of '' @ t else t)
      else
        (let type_els = findall el ''type'' in
         if type_els \<noteq> [] then
           join '' | '' (foldl (\<lambda>parts t. parts @ [type_part t]) [] type_els)
         else ''any''))"

section \<open>The data model\<close>

text \<open>
  The dictionaries the parser builds, one record per shape. A key that several shapes
  share (\<open>"name"\<close>, \<open>"code"\<close>, \<open>"type"\<close>, \<open>"description"\<close>) gets a prefix for its shape.
\<close>

record direct_param =
  dp_type :: string
  dp_description :: string
  dp_optional :: bool

record parameter =
  param_name :: string
  param_code :: string
  param_type :: string
  param_description :: string
  param_optional :: bool

record cmd_result =
  res_type :: string
  res_description :: string

record command =
  cmd_name :: string
  cmd_code :: string
  cmd_description :: string
  direct_parameter :: "direct_param option"
  parameters :: "parameter list"
  result :: "cmd_result option"

record property =
  prop_name :: string
  prop_code :: string
  prop_type :: string
  prop_access :: string
  prop_description :: string

record class_element =
  elem_type :: string
  elem_access :: string

record sdef_class =
  cls_name :: string
  cls_code :: string
  cls_description :: string
  inherits :: string
  plural :: string
  properties :: "property list"
  elements :: "class_element list"
  responds_to :: "string list"
  is_extension :: bool

record enumerator =
  val_name :: string
  val_code :: string
  val_description :: string

record enumeration =
  enum_name :: string
  enum_code :: string
  enum_values :: "enumerator list"

record suite =
  suite_name :: string
  suite_code :: string
  suite_description :: string
  commands :: "command list"
  classes :: "sdef_class list"
  enumerations :: "enumeration list"

text \<open>The parsed document: the fields of an \<open>SDEFParser\<close> object after construction.\<close>

record sdef_parser =
  title :: string
  suites :: "suite list"

section \<open>The parser\<close>

text \<open>
  Every \<open>for x in el.findall(t): acc.append(f(x))\<close> of the source is the left fold
  \<open>append_each f acc (findall el t)\<close>.
\<close>

definition append_each :: "('a \<Rightarrow> 'b) \<Rightarrow> 'b list \<Rightarrow> 'a list \<Rightarrow> 'b list" where
  "append_each f acc xs = foldl (\<lambda>a x. a @ [f x]) acc xs"

definition parse_param :: "xml \<Rightarrow> parameter" where
  "parse_param p =
     \<lparr>param_name = get_or p ''name'' '''',
      param_code = get_or p ''code'' '''',
      param_type = resolve_type p,
      param_description = get_or p ''description'' '''',
      param_optional = (get_or p ''optional'' ''no'' = ''yes'')\<rparr>"

definition parse_direct_param :: "xml \<Rightarrow> direct_param" where
  "parse_direct_param dp =
     \<lparr>dp_type = resolve_type dp,
      dp_description = get_or dp ''description'' '''',
      dp_optional = (get_or dp ''optional'' ''no'' = ''yes'')\<rparr>"

definition parse_result :: "xml \<Rightarrow> cmd_result" where
  "parse_result res =
     \<lparr>res_type = resolve_type res,
      res_description = get_or res ''description'' ''''\<rparr>"

definition parse_command :: "xml \<Rightarrow> command" where
  "parse_command el =
     \<lparr>cmd_name = get_or el ''name'' '''',
      cmd_code = get_or el ''code'' '''',
      cmd_description = get_or el ''description'' '''',
      direct_parameter = map_option parse_direct_param (find_first el ''direct-parameter''),
      parameters = append_each parse_param [] (findall el ''parameter''),
      result = map_option parse_result (find_first el ''result'')\<rparr>"

definition parse_property :: "xml \<Rightarrow> property" where
  "parse_property p =
     \<lparr>prop_name = get_or p ''name'' '''',
      prop_code = get_or p ''code'' '''',
      prop_type = resolve_type p,
      prop_access = get_or p ''access'' ''rw'',
      prop_description = get_or p ''description'' ''''\<rparr>"

definition parse_element :: "xml \<Rightarrow> class_element" where
  "parse_element e =
     \<lparr>elem_type = resolve_type e,
      elem_access = get_or e ''access'' ''rw''\<rparr>"

text \<open>\<open>rt.get("command", "") or rt.get("name", "")\<close>, kept only when it is not empty.\<close>

definition responds_to_name :: "xml \<Rightarrow> string" where
  "responds_to_name rt =
     (let c = get_or rt ''command'' '''' in if c \<noteq> [] then c else get_or rt ''name'' '''')"

definition parse_class :: "xml \<Rightarrow> sdef_class" where
  "parse_class el =
     \<lparr>cls_name = get_or el ''name'' '''',
      cls_code = get_or el ''code'' '''',
      cls_description = get_or el ''description'' '''',
      inherits = get_or el ''inherits'' '''',
      plural = get_or el ''plural'' '''',
      properties = append_each parse_property [] (findall el ''property''),
      elements = append_each parse_element [] (findall el ''element''),
      responds_to =
        foldl (\<lambda>acc rt. let cmd_name = responds_to_name rt in
                 if cmd_name \<noteq> [] then acc @ [cmd_name] else acc)
          [] (findall el ''responds-to''),
      is_extension = False\<rparr>"

definition parse_enumerator :: "xml \<Rightarrow> enumerator" where
  "parse_enumerator v =
     \<lparr>val_name = get_or v ''name'' '''',
      val_code = get_or v ''code'' '''',
      val_description = get_or v ''description'' ''''\<rparr>"

definition parse_enum :: "xml \<Rightarrow> enumeration" where
  "parse_enum el =
     \<lparr>enum_name = get_or el ''name'' '''',
      enum_code = get_or el ''code'' '''',
      enum_values = append_each parse_enumerator [] (findall el ''enumerator'')\<rparr>"

text \<open>
  The body of the loop of \<open>SDEFParser._parse\<close> for one \<open>suite\<close> element: four loops in
  this order, the third one setting \<open>is_extension\<close> on what it appends.
\<close>

definition parse_extension :: "xml \<Rightarrow> sdef_class" where
  "parse_extension ext_el = (parse_class ext_el)\<lparr>is_extension := True\<rparr>"

definition parse_suite :: "xml \<Rightarrow> suite" where
  "parse_suite suite_el =
     (let s0 = \<lparr>suite_name = get_or suite_el ''name'' '''',
                suite_code = get_or suite_el ''code'' '''',
                suite_description = get_or suite_el ''description'' '''',
                commands = [], classes = [], enumerations = []\<rparr>;
          s1 = s0\<lparr>commands := append_each parse_command (commands s0) (findall suite_el ''command'')\<rparr>;
          s2 = s1\<lparr>classes := append_each parse_class (classes s1) (findall suite_el ''class'')\<rparr>;
          s3 = s2\<lparr>classes :=
                    append_each parse_extension (classes s2) (findall suite_el ''class-extension'')\<rparr>
      in s3\<lparr>enumerations := append_each parse_enum (enumerations s3) (findall suite_el ''enumeration'')\<rparr>)"

text \<open>\<open>SDEFParser.__init__\<close> from the parsed root element on.\<close>

definition parse :: "xml \<Rightarrow> sdef_parser" where
  "parse root =
     \<lparr>title = get_or root ''title'' '''',
      suites = append_each parse_suite [] (findall root ''suite'')\<rparr>"

section \<open>Formatters\<close>

definition quote :: string where
  "quote = [CHR 0x27]"

text \<open>\<open>_fmt_command_signature\<close>: the one-line signature of a command.\<close>

definition fmt_command_signature :: "command \<Rightarrow> string" where
  "fmt_command_signature cmd =
     (let parts0 = [cmd_name cmd];
          parts1 = (case direct_parameter cmd of
                      None \<Rightarrow> parts0
                    | Some dp \<Rightarrow>
                        parts0 @ [''<'' @ dp_type dp @ (if dp_optional dp then ''?'' else '''') @ ''>'']);
          parts2 = append_each
                     (\<lambda>p. param_name p @ '':'' @ param_type p @ (if param_optional p then ''?'' else ''''))
                     parts1 (parameters cmd);
          parts3 = (case result cmd of
                      None \<Rightarrow> parts2
                    | Some r \<Rightarrow> parts2 @ [arrow @ '' '' @ res_type r]);
          desc = (if cmd_description cmd \<noteq> [] then ''  // '' @ cmd_description cmd else '''')
      in join '' '' parts3 @ desc)"

text \<open>\<open>_fmt_suite_detail\<close>: the one-line summary of a class, and the whole block.\<close>

definition fmt_class_summary :: "sdef_class \<Rightarrow> string" where
  "fmt_class_summary cls =
     (let inh = (if inherits cls \<noteq> [] then '' : '' @ inherits cls else '''');
          ext = (if is_extension cls then '' [ext]'' else '''');
          desc = (if cls_description cls \<noteq> [] then '' '' @ em_dash @ '' '' @ cls_description cls
                  else '''')
      in ''  '' @ cls_name cls @ inh @ ext
         @ '' ('' @ str_of_nat (length (properties cls)) @ ''p ''
         @ str_of_nat (length (elements cls)) @ ''e)'' @ desc)"

definition fmt_suite_detail_lines :: "suite \<Rightarrow> string list" where
  "fmt_suite_detail_lines suite =
     (let bars = double_bar @ double_bar @ double_bar;
          lines0 = [bars @ '' '' @ suite_name suite @ '' '' @ bars];
          lines1 = (if suite_description suite \<noteq> [] then lines0 @ [suite_description suite]
                    else lines0);
          lines2 = lines1 @ [''''];
          lines3 = (if commands suite \<noteq> [] then
                      append_each (\<lambda>cmd. ''  '' @ fmt_command_signature cmd)
                        (lines2 @ [''COMMANDS:'']) (commands suite) @ ['''']
                    else lines2);
          lines4 = (if classes suite \<noteq> [] then
                      append_each fmt_class_summary (lines3 @ [''CLASSES:'']) (classes suite) @ ['''']
                    else lines3)
      in (if enumerations suite \<noteq> [] then
            append_each
              (\<lambda>enum. ''  '' @ enum_name enum @ '': '' @ join '' | '' (map val_name (enum_values enum)))
              (lines4 @ [''ENUMS:'']) (enumerations suite) @ ['''']
          else lines4))"

definition fmt_suite_detail :: "str_methods \<Rightarrow> suite \<Rightarrow> string" where
  "fmt_suite_detail py suite = rstrip py (join nl (fmt_suite_detail_lines suite))"

text \<open>\<open>_fmt_command_detail\<close>.\<close>

definition fmt_command_detail_lines :: "command \<Rightarrow> string \<Rightarrow> string list" where
  "fmt_command_detail_lines cmd sn =
     (let header = ''COMMAND: '' @ cmd_name cmd @ (if sn \<noteq> [] then ''  ['' @ sn @ '']'' else '''');
          lines0 = [header];
          lines1 = (if cmd_description cmd \<noteq> [] then lines0 @ [''  '' @ cmd_description cmd]
                    else lines0);
          lines2 = (case direct_parameter cmd of
                      None \<Rightarrow> lines1
                    | Some dp \<Rightarrow>
                        (let l = lines1 @ [''  Direct param: '' @ dp_type dp
                                   @ (if dp_optional dp then '' [optional]'' else '''')]
                         in if dp_description dp \<noteq> [] then l @ [''    '' @ dp_description dp] else l));
          lines3 = (if parameters cmd \<noteq> [] then
                      append_each
                        (\<lambda>p. ''    '' @ param_name p @ '': '' @ param_type p
                           @ (if param_optional p then '' [optional]'' else '''')
                           @ (if param_description p \<noteq> []
                              then '' '' @ em_dash @ '' '' @ param_description p else ''''))
                        (lines2 @ [''  Params:'']) (parameters cmd)
                    else lines2)
      in (case result cmd of
            None \<Rightarrow> lines3
          | Some r \<Rightarrow>
              lines3 @ [''  Returns: '' @ res_type r
                @ (if res_description r \<noteq> [] then '' '' @ em_dash @ '' '' @ res_description r
                   else '''')]))"

definition fmt_command_detail :: "command \<Rightarrow> string \<Rightarrow> string" where
  "fmt_command_detail cmd sn = join nl (fmt_command_detail_lines cmd sn)"

text \<open>\<open>_fmt_class_detail\<close>.\<close>

definition fmt_class_detail_lines :: "sdef_class \<Rightarrow> string \<Rightarrow> string list" where
  "fmt_class_detail_lines cls sn =
     (let header = ''CLASS: '' @ cls_name cls @ (if sn \<noteq> [] then ''  ['' @ sn @ '']'' else '''');
          lines0 = [header];
          lines1 = (if inherits cls \<noteq> [] then lines0 @ [''  Inherits: '' @ inherits cls] else lines0);
          lines2 = (if plural cls \<noteq> [] then lines1 @ [''  Plural: '' @ plural cls] else lines1);
          lines3 = (if is_extension cls then lines2 @ [''  (class extension)''] else lines2);
          lines4 = (if cls_description cls \<noteq> [] then lines3 @ [''  '' @ cls_description cls]
                    else lines3);
          lines5 = (if properties cls \<noteq> [] then
                      append_each
                        (\<lambda>p. ''    '' @ prop_name p @ '': '' @ prop_type p
                           @ (if prop_access p \<noteq> ''rw'' then '' ['' @ prop_access p @ '']'' else '''')
                           @ (if prop_description p \<noteq> []
                              then '' '' @ em_dash @ '' '' @ prop_description p else ''''))
                        (lines4 @ [''  Properties:'']) (properties cls)
                    else lines4);
          lines6 = (if elements cls \<noteq> [] then
                      lines5 @ [''  Elements: '' @ join '', '' (map elem_type (elements cls))]
                    else lines5)
      in (if responds_to cls \<noteq> [] then
            lines6 @ [''  Responds to: '' @ join '', '' (responds_to cls)]
          else lines6))"

definition fmt_class_detail :: "sdef_class \<Rightarrow> string \<Rightarrow> string" where
  "fmt_class_detail cls sn = join nl (fmt_class_detail_lines cls sn)"

text \<open>\<open>_fmt_enum_detail\<close>.\<close>

definition fmt_enum_detail :: "enumeration \<Rightarrow> string \<Rightarrow> string" where
  "fmt_enum_detail enum sn =
     (let header = ''ENUM: '' @ enum_name enum @ (if sn \<noteq> [] then ''  ['' @ sn @ '']'' else '''')
      in join nl
           (append_each
              (\<lambda>v. ''  '' @ val_name v
                 @ (if val_description v \<noteq> [] then '' '' @ em_dash @ '' '' @ val_description v
                    else ''''))
              [header] (enum_values enum)))"

section \<open>The cache\<close>

text \<open>
  What lies outside the program is a parameter: \<open>_find_app_path\<close> (Spotlight and the
  file system), the \<open>subprocess.run\<close> of \<open>sdef\<close> inside \<open>_get_sdef_xml\<close> (its return code,
  standard output and standard error, or the exception it raises) and \<open>ET.fromstring\<close>
  (the root element, or the message of its \<open>ParseError\<close>).
\<close>

datatype error = ValueError string | SubprocessError string

record env =
  find_app_path :: "string \<Rightarrow> string option"
  run_sdef :: "string \<Rightarrow> error + (int \<times> string \<times> string)"
  fromstring :: "string \<Rightarrow> string + xml"

definition get_sdef_xml :: "str_methods \<Rightarrow> env \<Rightarrow> string \<Rightarrow> error + string" where
  "get_sdef_xml py e app_path =
     (case run_sdef e app_path of
        Inl exn \<Rightarrow> Inl exn
      | Inr (returncode, stdout, stderr) \<Rightarrow>
          if returncode \<noteq> 0 then
            Inl (ValueError (''Could not get SDEF for '' @ app_path
                   @ ''. The app may not be scriptable. stderr: '' @ strip py stderr))
          else Inr stdout)"

text \<open>\<open>SDEFParser(xml_string)\<close>: the constructor, which raises on malformed text.\<close>

definition SDEFParser :: "env \<Rightarrow> string \<Rightarrow> error + sdef_parser" where
  "SDEFParser e xml_string =
     (case fromstring e xml_string of
        Inl msg \<Rightarrow> Inl (ValueError (''Malformed SDEF XML: '' @ msg))
      | Inr root \<Rightarrow> Inr (parse root))"

text \<open>
  The state of the process: the dictionary \<open>_sdef_cache\<close>, and the record of the calls
  made to the two providers, in order, which the model keeps so that "the provider is not
  invoked" can be said.
\<close>

datatype provider_call = Locate string | Fetch string

record state =
  sdef_cache :: "string \<rightharpoonup> sdef_parser"
  calls :: "provider_call list"

text \<open>\<open>_get_parser\<close>. A raise leaves through \<open>Inl\<close> with the state as it is at the raise;
  \<open>load_parser\<close> is its last two lines, reached with a path that is not empty.\<close>

definition app_not_found :: "string \<Rightarrow> error" where
  "app_not_found app_name =
     ValueError (''App '' @ quote @ app_name @ quote
       @ '' not found. Use list_scriptable_apps() to see available apps.'')"

definition load_parser ::
  "str_methods \<Rightarrow> env \<Rightarrow> string \<Rightarrow> string \<Rightarrow> state \<Rightarrow> (error + sdef_parser) \<times> state" where
  "load_parser py e app_name app_path st =
     (let st2 = st\<lparr>calls := calls st @ [Fetch app_path]\<rparr>
      in case get_sdef_xml py e app_path of
           Inl exn \<Rightarrow> (Inl exn, st2)
         | Inr xml_string \<Rightarrow>
             (case SDEFParser e xml_string of
                Inl exn \<Rightarrow> (Inl exn, st2)
              | Inr p \<Rightarrow> (Inr p, st2\<lparr>sdef_cache := (sdef_cache st2)(app_name \<mapsto> p)\<rparr>)))"

definition get_parser ::
  "str_methods \<Rightarrow> env \<Rightarrow> string \<Rightarrow> state \<Rightarrow> (error + sdef_parser) \<times> state" where
  "get_parser py e app_name st =
     (case sdef_cache st app_name of
        Some p \<Rightarrow> (Inr p, st)
      | None \<Rightarrow>
          (let st1 = st\<lparr>calls := calls st @ [Locate app_name]\<rparr>
           in case find_app_path e app_name of
                None \<Rightarrow> (Inl (app_not_found app_name), st1)
              | Some app_path \<Rightarrow>
                  if app_path = [] then (Inl (app_not_found app_name), st1)
                  else load_parser py e app_name app_path st1))"

text \<open>
  The life of the process after some point: a list of requests, each an identifier
  together with the world outside as it is when the request arrives. Every tool starts
  with \<open>_get_parser\<close>, so the state after the requests is the state after these calls,
  whether they return or raise.
\<close>

fun serve :: "str_methods \<Rightarrow> (env \<times> string) list \<Rightarrow> state \<Rightarrow> state" where
  "serve py [] st = st"
| "serve py ((e, app_name) # requests) st = serve py requests (snd (get_parser py e app_name st))"

section \<open>The tools\<close>

text \<open>
  Each tool first calls \<open>_get_parser\<close>; \<open>with_parser\<close> is that first line, and the
  function it is given is the rest of the tool's body, a function of the parsed document.
\<close>

definition with_parser ::
  "str_methods \<Rightarrow> env \<Rightarrow> string \<Rightarrow> (sdef_parser \<Rightarrow> string) \<Rightarrow> state \<Rightarrow> (error + string) \<times> state" where
  "with_parser py e app_name body st =
     (case get_parser py e app_name st of
        (Inl exn, st') \<Rightarrow> (Inl exn, st')
      | (Inr parser, st') \<Rightarrow> (Inr (body parser), st'))"

text \<open>\<open>get_suite_detail\<close>: the loop returns at the first suite whose name matches.\<close>

fun first_suite :: "str_methods \<Rightarrow> suite list \<Rightarrow> string \<Rightarrow> suite option" where
  "first_suite py [] suite_name' = None"
| "first_suite py (suite # rest) suite_name' =
     (if lower py (suite_name suite) = lower py suite_name' then Some suite
      else first_suite py rest suite_name')"

definition get_suite_detail_body :: "str_methods \<Rightarrow> string \<Rightarrow> sdef_parser \<Rightarrow> string" where
  "get_suite_detail_body py suite_name' parser =
     (case first_suite py (suites parser) suite_name' of
        Some suite \<Rightarrow> fmt_suite_detail py suite
      | None \<Rightarrow>
          ''Suite '' @ quote @ suite_name' @ quote @ '' not found. Available: ''
            @ join '', '' (map suite_name (suites parser)))"

definition get_suite_detail ::
  "str_methods \<Rightarrow> env \<Rightarrow> string \<Rightarrow> string \<Rightarrow> state \<Rightarrow> (error + string) \<times> state" where
  "get_suite_detail py e app_name suite_name' =
     with_parser py e app_name (get_suite_detail_body py suite_name')"

text \<open>
  \<open>get_command\<close>, \<open>get_class\<close> and \<open>get_enumeration\<close>: two nested loops collect the
  rendering of every match into \<open>results\<close>; with no match, the names of all entities
  of the kind are listed, \<open>sorted\<close> from a set.
\<close>

definition command_results :: "str_methods \<Rightarrow> sdef_parser \<Rightarrow> string \<Rightarrow> string list" where
  "command_results py parser command_name =
     foldl (\<lambda>results suite.
        foldl (\<lambda>results cmd.
           if lower py (cmd_name cmd) = lower py command_name
           then results @ [fmt_command_detail cmd (suite_name suite)] else results)
          results (commands suite))
       [] (suites parser)"

definition all_cmds :: "sdef_parser \<Rightarrow> string list" where
  "all_cmds parser = sorted_set (concat (map (\<lambda>suite. map cmd_name (commands suite)) (suites parser)))"

definition get_command_body :: "str_methods \<Rightarrow> string \<Rightarrow> sdef_parser \<Rightarrow> string" where
  "get_command_body py command_name parser =
     (let results = command_results py parser command_name
      in if results \<noteq> [] then join (nl @ nl) results
         else ''Command '' @ quote @ command_name @ quote @ '' not found.'' @ nl
                @ ''Available: '' @ join '', '' (all_cmds parser))"

definition get_command ::
  "str_methods \<Rightarrow> env \<Rightarrow> string \<Rightarrow> string \<Rightarrow> state \<Rightarrow> (error + string) \<times> state" where
  "get_command py e app_name command_name = with_parser py e app_name (get_command_body py command_name)"

definition class_results :: "str_methods \<Rightarrow> sdef_parser \<Rightarrow> string \<Rightarrow> string list" where
  "class_results py parser class_name =
     foldl (\<lambda>results suite.
        foldl (\<lambda>results cls.
           if lower py (cls_name cls) = lower py class_name
           then results @ [fmt_class_detail cls (suite_name suite)] else results)
          results (classes suite))
       [] (suites parser)"

definition all_classes :: "sdef_parser \<Rightarrow> string list" where
  "all_classes parser =
     sorted_set (concat (map (\<lambda>suite. map cls_name (classes suite)) (suites parser)))"

definition get_class_body :: "str_methods \<Rightarrow> string \<Rightarrow> sdef_parser \<Rightarrow> string" where
  "get_class_body py class_name parser =
     (let results = class_results py parser class_name
      in if results \<noteq> [] then join (nl @ nl) results
         else ''Class '' @ quote @ class_name @ quote @ '' not found.'' @ nl
                @ ''Available: '' @ join '', '' (all_classes parser))"

definition get_class ::
  "str_methods \<Rightarrow> env \<Rightarrow> string \<Rightarrow> string \<Rightarrow> state \<Rightarrow> (error + string) \<times> state" where
  "get_class py e app_name class_name = with_parser py e app_name (get_class_body py class_name)"

definition enum_results :: "str_methods \<Rightarrow> sdef_parser \<Rightarrow> string \<Rightarrow> string list" where
  "enum_results py parser enum_name' =
     foldl (\<lambda>results suite.
        foldl (\<lambda>results enum.
           if lower py (enum_name enum) = lower py enum_name'
           then results @ [fmt_enum_detail enum (suite_name suite)] else results)
          results (enumerations suite))
       [] (suites parser)"

definition all_enums :: "sdef_parser \<Rightarrow> string list" where
  "all_enums parser =
     sorted_set (concat (map (\<lambda>suite. map enum_name (enumerations suite)) (suites parser)))"

definition get_enumeration_body :: "str_methods \<Rightarrow> string \<Rightarrow> sdef_parser \<Rightarrow> string" where
  "get_enumeration_body py enum_name' parser =
     (let results = enum_results py parser enum_name'
      in if results \<noteq> [] then join (nl @ nl) results
         else ''Enum '' @ quote @ enum_name' @ quote @ '' not found.'' @ nl
                @ ''Available: '' @ join '', '' (all_enums parser))"

definition get_enumeration ::
  "str_methods \<Rightarrow> env \<Rightarrow> string \<Rightarrow> string \<Rightarrow> state \<Rightarrow> (error + string) \<times> state" where
  "get_enumeration py e app_name enum_name' =
     with_parser py e app_name (get_enumeration_body py enum_name')"

text \<open>
  \<open>search_dictionary\<close>. The list \<open>hits\<close> is threaded through the loops; each function
  below is the body of one loop, taking \<open>hits\<close> and returning it extended. The lines it
  appends are named after the kind of hit they report.
\<close>

definition cmd_hit :: "string \<Rightarrow> command \<Rightarrow> string" where
  "cmd_hit sn cmd = ''  CMD  ['' @ sn @ ''] '' @ fmt_command_signature cmd"

definition cls_hit :: "string \<Rightarrow> sdef_class \<Rightarrow> string" where
  "cls_hit sn cls =
     (let inh = (if inherits cls \<noteq> [] then '' : '' @ inherits cls else '''')
      in ''  CLS  ['' @ sn @ ''] '' @ cls_name cls @ inh
         @ '' ('' @ str_of_nat (length (properties cls)) @ ''p ''
         @ str_of_nat (length (elements cls)) @ ''e)'')"

definition prop_hit :: "string \<Rightarrow> sdef_class \<Rightarrow> property \<Rightarrow> string" where
  "prop_hit sn cls prop =
     (let acc = (if prop_access prop \<noteq> ''rw'' then '' ['' @ prop_access prop @ '']'' else '''')
      in ''  PROP ['' @ sn @ ''] '' @ cls_name cls @ ''.'' @ prop_name prop @ '': ''
         @ prop_type prop @ acc)"

definition enum_hit :: "string \<Rightarrow> enumeration \<Rightarrow> string" where
  "enum_hit sn enum =
     (let vals = join '' | '' (map val_name (enum_values enum))
      in ''  ENUM ['' @ sn @ ''] '' @ enum_name enum @ '': '' @ vals)"

definition val_hit :: "string \<Rightarrow> enumeration \<Rightarrow> enumerator \<Rightarrow> string" where
  "val_hit sn enum v =
     ''  VAL  ['' @ sn @ ''] '' @ enum_name enum @ ''.'' @ val_name v
       @ (if val_description v \<noteq> [] then '' '' @ em_dash @ '' '' @ val_description v else '''')"

definition search_command :: "str_methods \<Rightarrow> string \<Rightarrow> string \<Rightarrow> string list \<Rightarrow> command \<Rightarrow> string list" where
  "search_command py sn q hits cmd =
     (if str_in q (lower py (cmd_name cmd)) \<or> str_in q (lower py (cmd_description cmd))
      then hits @ [cmd_hit sn cmd] else hits)"

definition search_property ::
  "str_methods \<Rightarrow> string \<Rightarrow> string \<Rightarrow> sdef_class \<Rightarrow> string list \<Rightarrow> property \<Rightarrow> string list" where
  "search_property py sn q cls hits prop =
     (if str_in q (lower py (prop_name prop)) \<or> str_in q (lower py (prop_description prop))
      then hits @ [prop_hit sn cls prop] else hits)"

definition search_class :: "str_methods \<Rightarrow> string \<Rightarrow> string \<Rightarrow> string list \<Rightarrow> sdef_class \<Rightarrow> string list" where
  "search_class py sn q hits cls =
     (let hits1 = (if str_in q (lower py (cls_name cls)) \<or> str_in q (lower py (cls_description cls))
                   then hits @ [cls_hit sn cls] else hits)
      in foldl (search_property py sn q cls) hits1 (properties cls))"

definition search_enumerator ::
  "str_methods \<Rightarrow> string \<Rightarrow> string \<Rightarrow> enumeration \<Rightarrow> string list \<Rightarrow> enumerator \<Rightarrow> string list" where
  "search_enumerator py sn q enum hits v =
     (if str_in q (lower py (val_name v)) then hits @ [val_hit sn enum v] else hits)"

definition search_enum :: "str_methods \<Rightarrow> string \<Rightarrow> string \<Rightarrow> string list \<Rightarrow> enumeration \<Rightarrow> string list" where
  "search_enum py sn q hits enum =
     (if str_in q (lower py (enum_name enum)) then hits @ [enum_hit sn enum]
      else foldl (search_enumerator py sn q enum) hits (enum_values enum))"

definition search_suite :: "str_methods \<Rightarrow> string \<Rightarrow> string list \<Rightarrow> suite \<Rightarrow> string list" where
  "search_suite py q hits suite =
     (let sn = suite_name suite;
          hits1 = foldl (search_command py sn q) hits (commands suite);
          hits2 = foldl (search_class py sn q) hits1 (classes suite)
      in foldl (search_enum py sn q) hits2 (enumerations suite))"

definition search_hits :: "str_methods \<Rightarrow> sdef_parser \<Rightarrow> string \<Rightarrow> string list" where
  "search_hits py parser query = foldl (search_suite py (lower py query)) [] (suites parser)"

definition search_dictionary_body :: "str_methods \<Rightarrow> string \<Rightarrow> string \<Rightarrow> sdef_parser \<Rightarrow> string" where
  "search_dictionary_body py app_name query parser =
     (let hits = search_hits py parser query
      in if hits = [] then
           ''No results for '' @ quote @ query @ quote @ '' in '' @ app_name @ quote
             @ ''s dictionary.''
         else
           ''Search '' @ quote @ query @ quote @ '' in '' @ app_name
             @ '' ('' @ str_of_nat (length hits) @ '' hits):'' @ nl @ join nl hits)"

definition search_dictionary ::
  "str_methods \<Rightarrow> env \<Rightarrow> string \<Rightarrow> string \<Rightarrow> state \<Rightarrow> (error + string) \<times> state" where
  "search_dictionary py e app_name query =
     with_parser py e app_name (search_dictionary_body py app_name query)"

section \<open>Example inputs\<close>

text \<open>
  A small dictionary: three suites, the last two with names that differ only in case; a
  command defined in two suites under two spellings; a class with a class-extension of
  its name in another suite; and an enumeration name that two suites use.
\<close>

definition example_root :: xml where
  "example_root =
     Element ''dictionary'' [(''title'', ''Example'')]
       [Element ''suite'' [(''name'', ''Standard Suite''), (''description'', ''Common terms'')]
          [Element ''command'' [(''name'', ''close''), (''description'', ''Close a document.'')]
             [Element ''parameter''
                [(''name'', ''saving''), (''type'', ''save options''), (''optional'', ''yes'')] []],
           Element ''command'' [(''name'', ''make'')] [Element ''result'' [(''type'', ''specifier'')] []],
           Element ''class'' [(''name'', ''document''), (''description'', ''An open file.'')]
             [Element ''property'' [(''name'', ''name''), (''type'', ''text''), (''access'', ''r'')] []],
           Element ''enumeration'' [(''name'', ''save options'')]
             [Element ''enumerator'' [(''name'', ''yes'')] [],
              Element ''enumerator'' [(''name'', ''no'')] [],
              Element ''enumerator'' [(''name'', ''ask''), (''description'', ''Ask the user.'')] []]],
        Element ''suite'' [(''name'', ''Text Suite'')]
          [Element ''command'' [(''name'', ''Make'')] [],
           Element ''class-extension'' [(''name'', ''Document'')]
             [Element ''property'' [(''name'', ''contents'')]
                [Element ''type'' [(''type'', ''text'')] [],
                 Element ''type'' [(''type'', ''paragraph''), (''list'', ''yes'')] []]],
           Element ''enumeration'' [(''name'', ''alignment'')]
             [Element ''enumerator'' [(''name'', ''left'')] []]],
        Element ''suite'' [(''name'', ''TEXT SUITE''), (''description'', ''More text'')]
          [Element ''command'' [(''name'', ''quit'')] [],
           Element ''enumeration'' [(''name'', ''save options'')]
             [Element ''enumerator'' [(''name'', ''yes'')] []]]]"

definition example_doc :: sdef_parser where
  "example_doc = parse example_root"

text \<open>
  Three states of the world outside: one where the application \<open>Safari\<close> is installed
  and \<open>sdef\<close> prints a well-formed document for it, one where \<open>sdef\<close> fails, and one
  where \<open>Finder\<close> is the application installed.
\<close>

definition example_env :: env where
  "example_env =
     \<lparr>find_app_path = (\<lambda>n. if n = ''Safari'' then Some ''/Applications/Safari.app'' else None),
      run_sdef = (\<lambda>p. Inr (0, ''<dictionary/>'', [])),
      fromstring = (\<lambda>s. if s = ''<dictionary/>'' then Inr (Element ''dictionary'' [] [])
                         else Inl ''syntax error'')\<rparr>"

definition failing_env :: env where
  "failing_env =
     \<lparr>find_app_path = (\<lambda>n. if n = ''Safari'' then Some ''/Applications/Safari.app'' else None),
      run_sdef = (\<lambda>p. Inr (1, [], ''no sdef'')),
      fromstring = (\<lambda>s. Inl ''syntax error'')\<rparr>"

definition finder_env :: env where
  "finder_env =
     \<lparr>find_app_path = (\<lambda>n. if n = ''Finder'' then Some ''/System/Finder.app'' else None),
      run_sdef = (\<lambda>p. Inr (0, ''<dictionary/>'', [])),
      fromstring = (\<lambda>s. if s = ''<dictionary/>'' then Inr (Element ''dictionary'' [] [])
                         else Inl ''syntax error'')\<rparr>"

definition empty_state :: state where
  "empty_state = \<lparr>sdef_cache = Map.empty, calls = []\<rparr>"

section \<open>Loops as maps and filters\<close>

lemma append_each_eq: "append_each f acc xs = acc @ map f xs"
  unfolding append_each_def by (induction xs arbitrary: acc) simp_all

lemma foldl_append_if:
  "foldl (\<lambda>a x. if P x then a @ [f x] else a) acc xs = acc @ map f (filter P xs)"
  by (induction xs arbitrary: acc) simp_all

lemma type_parts_eq: "foldl (\<lambda>parts t. parts @ [type_part t]) [] ts = map type_part ts"
  using append_each_eq [of type_part "[]" ts] by (simp add: append_each_def)

section \<open>Type resolution\<close>

text \<open>
  C1, as the program has it. An inline \<open>type\<close> attribute that is present and not empty
  decides the type, with \<open>list of\<close> before it when \<open>list\<close> is \<open>yes\<close>, whatever the children
  are. Without one (the attribute is absent or empty), nested \<open>type\<close> children decide: each
  child gives its own \<open>type\<close> attribute, or \<open>any\<close> when it has none, with \<open>list of\<close> before
  it when the child's \<open>list\<close> is \<open>yes\<close>, and the parts are joined by \<open>" | "\<close>. With neither,
  the type is \<open>any\<close>.
\<close>

theorem resolve_type_order:
  "(\<forall>t. get el ''type'' = Some t \<longrightarrow> t \<noteq> [] \<longrightarrow>
      resolve_type el = (if get el ''list'' = Some ''yes'' then ''list of '' @ t else t))
   \<and> ((get el ''type'' = None \<or> get el ''type'' = Some []) \<longrightarrow> findall el ''type'' \<noteq> [] \<longrightarrow>
      resolve_type el =
        join '' | ''
          (map (\<lambda>c. (if get c ''list'' = Some ''yes'' then ''list of '' else [])
                    @ (case get c ''type'' of None \<Rightarrow> ''any'' | Some v \<Rightarrow> v))
             (findall el ''type'')))
   \<and> ((get el ''type'' = None \<or> get el ''type'' = Some []) \<longrightarrow> findall el ''type'' = [] \<longrightarrow>
      resolve_type el = ''any'')"
proof -
  have part: "type_part =
      (\<lambda>c. (if get c ''list'' = Some ''yes'' then ''list of '' else [])
        @ (case get c ''type'' of None \<Rightarrow> ''any'' | Some v \<Rightarrow> v))"
    by (rule ext) (simp add: type_part_def get_or_def)
  have inline: "resolve_type el = (if get el ''list'' = Some ''yes'' then ''list of '' @ t else t)"
    if "get el ''type'' = Some t" "t \<noteq> []" for t
    using that by (simp add: resolve_type_def get_or_def)
  have nested: "resolve_type el = join '' | '' (map type_part (findall el ''type''))"
    if "get el ''type'' = None \<or> get el ''type'' = Some []" "findall el ''type'' \<noteq> []"
    using that by (auto simp: resolve_type_def type_parts_eq)
  have neither: "resolve_type el = ''any''"
    if "get el ''type'' = None \<or> get el ''type'' = Some []" "findall el ''type'' = []"
    using that by (auto simp: resolve_type_def)
  have nested':
    "resolve_type el =
        join '' | ''
          (map (\<lambda>c. (if get c ''list'' = Some ''yes'' then ''list of '' else [])
                    @ (case get c ''type'' of None \<Rightarrow> ''any'' | Some v \<Rightarrow> v))
             (findall el ''type''))"
    if "get el ''type'' = None \<or> get el ''type'' = Some []" "findall el ''type'' \<noteq> []"
    using nested [OF that] unfolding part .
  show ?thesis using inline nested' neither by blast
qed

theorem resolve_type_order_witness:
  "resolve_type (Element ''parameter'' [(''type'', ''text''), (''list'', ''yes'')]
       [Element ''type'' [(''type'', ''integer'')] []]) = ''list of text''
   \<and> resolve_type (Element ''parameter'' [(''name'', ''x'')]
       [Element ''type'' [(''type'', ''text'')] [],
        Element ''type'' [(''list'', ''yes'')] []]) = ''text | list of any''
   \<and> resolve_type (Element ''parameter'' [(''name'', ''x'')] []) = ''any''"
  using
    resolve_type_order [of "Element ''parameter'' [(''type'', ''text''), (''list'', ''yes'')]
       [Element ''type'' [(''type'', ''integer'')] []]"]
    resolve_type_order [of "Element ''parameter'' [(''name'', ''x'')]
       [Element ''type'' [(''type'', ''text'')] [],
        Element ''type'' [(''list'', ''yes'')] []]"]
    resolve_type_order [of "Element ''parameter'' [(''name'', ''x'')] []"]
  by (simp add: get_def findall_def)

text \<open>
  C1 as stated fails where the inline attribute is present but empty: the program
  treats it as absent and lets the nested child decide.
\<close>

theorem resolve_type_empty_inline:
  "get (Element ''parameter'' [(''type'', [])] [Element ''type'' [(''type'', ''text'')] []]) ''type''
     = Some []
   \<and> resolve_type
       (Element ''parameter'' [(''type'', [])] [Element ''type'' [(''type'', ''text'')] []])
     = ''text''
   \<and> resolve_type
       (Element ''parameter'' [(''type'', [])] [Element ''type'' [(''type'', ''text'')] []])
     \<noteq> []"
  by (simp add: resolve_type_def get_def get_or_def findall_def type_part_def)

text \<open>
  C9. The claim is that every resolved type is non-empty. A nested \<open>type\<close> child whose
  own \<open>type\<close> attribute is the empty string passes it on: the parameter of the command
  below is parsed with the empty type, where an empty inline attribute would have given
  \<open>any\<close>.
\<close>

theorem resolve_type_empty_descriptor:
  "resolve_type (Element ''parameter'' [(''name'', ''x'')] [Element ''type'' [(''type'', [])] []]) = []
   \<and> map param_type
       (parameters
          (parse_command
             (Element ''command'' [(''name'', ''c'')]
                [Element ''parameter'' [(''name'', ''x'')] [Element ''type'' [(''type'', [])] []]])))
     = [[]]
   \<and> resolve_type (Element ''parameter'' [(''name'', ''x''), (''type'', [])] []) = ''any''"
  by (simp add: resolve_type_def get_def get_or_def findall_def type_part_def
      parse_command_def parse_param_def append_each_def)

section \<open>Structure of the parsed document\<close>

text \<open>
  C2, as the program has it. The suites of the parsed document are the \<open>suite\<close> children
  of the root, one for one and in document order; so are a suite's commands and its
  enumerations. A suite's \<open>classes\<close> holds the \<open>class\<close> children in document order,
  flagged \<open>is_extension = False\<close>, followed by the \<open>class-extension\<close> children in document
  order, flagged \<open>is_extension = True\<close>; the counts are those of the document.
\<close>

theorem parse_keeps_document_order:
  "suites (parse root) = map parse_suite (filter (\<lambda>c. tag c = ''suite'') (children root))
   \<and> commands (parse_suite s) = map parse_command (filter (\<lambda>c. tag c = ''command'') (children s))
   \<and> enumerations (parse_suite s)
       = map parse_enum (filter (\<lambda>c. tag c = ''enumeration'') (children s))
   \<and> classes (parse_suite s)
       = map parse_class (filter (\<lambda>c. tag c = ''class'') (children s))
         @ map parse_extension (filter (\<lambda>c. tag c = ''class-extension'') (children s))
   \<and> map is_extension (classes (parse_suite s))
       = replicate (length (filter (\<lambda>c. tag c = ''class'') (children s))) False
         @ replicate (length (filter (\<lambda>c. tag c = ''class-extension'') (children s))) True
   \<and> length (suites (parse root)) = length (filter (\<lambda>c. tag c = ''suite'') (children root))
   \<and> length (commands (parse_suite s)) = length (filter (\<lambda>c. tag c = ''command'') (children s))
   \<and> length (classes (parse_suite s))
       = length (filter (\<lambda>c. tag c = ''class'' \<or> tag c = ''class-extension'') (children s))
   \<and> length (enumerations (parse_suite s))
       = length (filter (\<lambda>c. tag c = ''enumeration'') (children s))"
proof -
  have su: "suites (parse root) = map parse_suite (filter (\<lambda>c. tag c = ''suite'') (children root))"
    by (simp add: parse_def append_each_eq findall_def)
  have co: "commands (parse_suite s)
      = map parse_command (filter (\<lambda>c. tag c = ''command'') (children s))"
    by (simp add: parse_suite_def Let_def append_each_eq findall_def)
  have en: "enumerations (parse_suite s)
      = map parse_enum (filter (\<lambda>c. tag c = ''enumeration'') (children s))"
    by (simp add: parse_suite_def Let_def append_each_eq findall_def)
  have cl: "classes (parse_suite s)
      = map parse_class (filter (\<lambda>c. tag c = ''class'') (children s))
        @ map parse_extension (filter (\<lambda>c. tag c = ''class-extension'') (children s))"
    by (simp add: parse_suite_def Let_def append_each_eq findall_def)
  have fl: "map is_extension (classes (parse_suite s))
      = replicate (length (filter (\<lambda>c. tag c = ''class'') (children s))) False
        @ replicate (length (filter (\<lambda>c. tag c = ''class-extension'') (children s))) True"
    unfolding cl by (simp add: map_replicate_const [symmetric] parse_class_def parse_extension_def comp_def)
  have both: "length (filter (\<lambda>c. tag c = ''class'' \<or> tag c = ''class-extension'') cs)
      = length (filter (\<lambda>c. tag c = ''class'') cs)
        + length (filter (\<lambda>c. tag c = ''class-extension'') cs)" for cs :: "xml list"
    by (induction cs) auto
  have ln: "length (classes (parse_suite s))
      = length (filter (\<lambda>c. tag c = ''class'' \<or> tag c = ''class-extension'') (children s))"
    unfolding cl both by simp
  show ?thesis using su co en cl fl ln by simp
qed

theorem parse_keeps_document_order_witness:
  "map cmd_name (commands (parse_suite
      (Element ''suite'' [(''name'', ''S'')]
         [Element ''command'' [(''name'', ''open'')] [],
          Element ''class'' [(''name'', ''window'')] [],
          Element ''command'' [(''name'', ''close'')] [],
          Element ''class-extension'' [(''name'', ''document'')] []]))) = [''open'', ''close'']
   \<and> map cls_name (classes (parse_suite
      (Element ''suite'' [(''name'', ''S'')]
         [Element ''command'' [(''name'', ''open'')] [],
          Element ''class'' [(''name'', ''window'')] [],
          Element ''command'' [(''name'', ''close'')] [],
          Element ''class-extension'' [(''name'', ''document'')] []]))) = [''window'', ''document'']
   \<and> map is_extension (classes (parse_suite
      (Element ''suite'' [(''name'', ''S'')]
         [Element ''command'' [(''name'', ''open'')] [],
          Element ''class'' [(''name'', ''window'')] [],
          Element ''command'' [(''name'', ''close'')] [],
          Element ''class-extension'' [(''name'', ''document'')] []]))) = [False, True]"
  using parse_keeps_document_order [of "Element ''dictionary'' [] []"
      "Element ''suite'' [(''name'', ''S'')]
         [Element ''command'' [(''name'', ''open'')] [],
          Element ''class'' [(''name'', ''window'')] [],
          Element ''command'' [(''name'', ''close'')] [],
          Element ''class-extension'' [(''name'', ''document'')] []]"]
  by (simp add: parse_command_def parse_class_def parse_extension_def get_or_def get_def)

text \<open>
  C2 as stated fails for a suite that declares a class-extension before a class: the
  document has \<open>window\<close> (an extension) first and \<open>document\<close> second, the parsed \<open>classes\<close>
  has them the other way round.
\<close>

theorem classes_not_in_document_order:
  "map tag (children
      (Element ''suite'' [(''name'', ''S'')]
         [Element ''class-extension'' [(''name'', ''window'')] [],
          Element ''class'' [(''name'', ''document'')] []])) = [''class-extension'', ''class'']
   \<and> map attrib (children
      (Element ''suite'' [(''name'', ''S'')]
         [Element ''class-extension'' [(''name'', ''window'')] [],
          Element ''class'' [(''name'', ''document'')] []]))
       = [[(''name'', ''window'')], [(''name'', ''document'')]]
   \<and> map cls_name (classes (parse_suite
      (Element ''suite'' [(''name'', ''S'')]
         [Element ''class-extension'' [(''name'', ''window'')] [],
          Element ''class'' [(''name'', ''document'')] []]))) = [''document'', ''window'']
   \<and> map is_extension (classes (parse_suite
      (Element ''suite'' [(''name'', ''S'')]
         [Element ''class-extension'' [(''name'', ''window'')] [],
          Element ''class'' [(''name'', ''document'')] []]))) = [False, True]"
  by (simp add: parse_suite_def append_each_def findall_def parse_class_def parse_extension_def
      get_or_def get_def)

section \<open>The cache\<close>

lemma load_parser_Inr:
  "load_parser py e n path st = (Inr p, st') \<Longrightarrow> sdef_cache st' n = Some p"
  by (auto simp: load_parser_def Let_def split: sum.splits)

lemma load_parser_Inl:
  "load_parser py e n path st = (Inl exn, st') \<Longrightarrow>
     sdef_cache st' = sdef_cache st \<and> calls st' = calls st @ [Fetch path]"
  by (auto simp: load_parser_def Let_def split: sum.splits)

lemma load_parser_calls:
  "take (Suc (length (calls st))) (calls (snd (load_parser py e n path st)))
     = calls st @ [Fetch path]"
  by (auto simp: load_parser_def Let_def split: sum.splits)

lemma load_parser_other:
  "m \<noteq> n \<Longrightarrow> sdef_cache (snd (load_parser py e m path st)) n = sdef_cache st n"
  by (auto simp: load_parser_def Let_def split: sum.splits)

lemma get_parser_cached:
  "sdef_cache st n = Some p \<Longrightarrow> get_parser py e n st = (Inr p, st)"
  by (simp add: get_parser_def)

lemma get_parser_Inr:
  "get_parser py e n st = (Inr p, st') \<Longrightarrow> sdef_cache st' n = Some p"
  by (auto simp: get_parser_def Let_def dest: load_parser_Inr split: option.splits if_splits)

lemma get_parser_Inl:
  "get_parser py e n st = (Inl exn, st') \<Longrightarrow>
     sdef_cache st' = sdef_cache st \<and> sdef_cache st n = None"
  by (auto simp: get_parser_def Let_def dest: load_parser_Inl split: option.splits if_splits)

lemma get_parser_uncached_locates:
  "sdef_cache st n = None \<Longrightarrow>
     take (Suc (length (calls st))) (calls (snd (get_parser py e n st))) = calls st @ [Locate n]"
  using load_parser_calls [of "st\<lparr>calls := calls st @ [Locate n]\<rparr>" py e n]
  by (auto simp: get_parser_def Let_def load_parser_def split: option.splits sum.splits)

lemma get_parser_uncached_fetches:
  "sdef_cache st n = None \<Longrightarrow> find_app_path e n = Some path \<Longrightarrow> path \<noteq> [] \<Longrightarrow>
     take (Suc (Suc (length (calls st)))) (calls (snd (get_parser py e n st)))
       = calls st @ [Locate n, Fetch path]"
  by (auto simp: get_parser_def Let_def load_parser_def split: option.splits sum.splits)

lemma get_parser_other:
  "m \<noteq> n \<Longrightarrow> sdef_cache (snd (get_parser py e m st)) n = sdef_cache st n"
  by (auto simp: get_parser_def Let_def load_parser_other split: option.splits)

lemma get_parser_keeps:
  "sdef_cache st n = Some p \<Longrightarrow> sdef_cache (snd (get_parser py e m st)) n = Some p"
proof (cases "m = n")
  case True
  assume "sdef_cache st n = Some p"
  with True show ?thesis by (simp add: get_parser_cached)
next
  case False
  assume "sdef_cache st n = Some p"
  with False show ?thesis by (simp add: get_parser_other)
qed

lemma serve_keeps:
  "sdef_cache st n = Some p \<Longrightarrow> sdef_cache (serve py requests st) n = Some p"
proof (induction requests arbitrary: st)
  case Nil
  then show ?case by simp
next
  case (Cons r requests)
  obtain e m where r: "r = (e, m)" by (cases r)
  from Cons.prems have "sdef_cache (snd (get_parser py e m st)) n = Some p"
    by (rule get_parser_keeps)
  then show ?case unfolding r by (simp add: Cons.IH)
qed

lemma serve_others:
  "\<forall>r \<in> set requests. snd r \<noteq> n \<Longrightarrow> sdef_cache (serve py requests st) n = sdef_cache st n"
proof (induction requests arbitrary: st)
  case Nil
  then show ?case by simp
next
  case (Cons r requests)
  obtain e m where r: "r = (e, m)" by (cases r)
  from Cons.prems r have "m \<noteq> n" by simp
  then have "sdef_cache (snd (get_parser py e m st)) n = sdef_cache st n"
    by (rule get_parser_other)
  moreover from Cons.prems have "\<forall>r \<in> set requests. snd r \<noteq> n" by simp
  ultimately show ?case unfolding r using Cons.IH by simp
qed

text \<open>
  C3. Once \<open>_get_parser\<close> has returned a document for an identifier, every later call
  with that identifier returns the same document and leaves the state as it is: the
  cache is unchanged and no provider call is recorded. This holds right after the load
  and after any further requests, for this or for other identifiers, successful or not,
  and whatever the providers would answer by then. When \<open>_get_parser\<close> raises, the
  cache is what it was before the call and holds nothing for the identifier, so the next
  call for it, right away or after requests for other identifiers, starts over with the
  locate step, and goes on to the fetch step when an application is found.
\<close>

theorem get_parser_cache_contract:
  "(get_parser py e1 app_name st = (Inr p, st1) \<longrightarrow>
      sdef_cache st1 app_name = Some p
      \<and> get_parser py e2 app_name st1 = (Inr p, st1)
      \<and> (\<forall>requests e3.
            get_parser py e3 app_name (serve py requests st1) = (Inr p, serve py requests st1)))
   \<and> (get_parser py e1 app_name st = (Inl exn, st1) \<longrightarrow>
      sdef_cache st1 = sdef_cache st
      \<and> sdef_cache st1 app_name = None
      \<and> take (Suc (length (calls st1))) (calls (snd (get_parser py e2 app_name st1)))
          = calls st1 @ [Locate app_name]
      \<and> (\<forall>path. find_app_path e2 app_name = Some path \<longrightarrow> path \<noteq> [] \<longrightarrow>
            take (Suc (Suc (length (calls st1)))) (calls (snd (get_parser py e2 app_name st1)))
              = calls st1 @ [Locate app_name, Fetch path])
      \<and> (\<forall>requests e3. (\<forall>r \<in> set requests. snd r \<noteq> app_name) \<longrightarrow>
            take (Suc (length (calls (serve py requests st1))))
              (calls (snd (get_parser py e3 app_name (serve py requests st1))))
              = calls (serve py requests st1) @ [Locate app_name]))"
proof (intro conjI impI allI)
  assume ok: "get_parser py e1 app_name st = (Inr p, st1)"
  then show stored: "sdef_cache st1 app_name = Some p" by (rule get_parser_Inr)
  then show "get_parser py e2 app_name st1 = (Inr p, st1)" by (rule get_parser_cached)
  fix requests e3
  from stored have "sdef_cache (serve py requests st1) app_name = Some p" by (rule serve_keeps)
  then show "get_parser py e3 app_name (serve py requests st1) = (Inr p, serve py requests st1)"
    by (rule get_parser_cached)
next
  assume bad: "get_parser py e1 app_name st = (Inl exn, st1)"
  from get_parser_Inl [OF bad] show same: "sdef_cache st1 = sdef_cache st" by simp
  from get_parser_Inl [OF bad] show none: "sdef_cache st1 app_name = None" by simp
  from none show "take (Suc (length (calls st1))) (calls (snd (get_parser py e2 app_name st1)))
      = calls st1 @ [Locate app_name]"
    by (rule get_parser_uncached_locates)
  {
    fix path
    assume "find_app_path e2 app_name = Some path" "path \<noteq> []"
    with none show "take (Suc (Suc (length (calls st1)))) (calls (snd (get_parser py e2 app_name st1)))
        = calls st1 @ [Locate app_name, Fetch path]"
      by (rule get_parser_uncached_fetches)
  }
  fix requests :: "(env \<times> string) list" and e3
  assume "\<forall>r \<in> set requests. snd r \<noteq> app_name"
  then have "sdef_cache (serve py requests st1) app_name = None"
    using none by (simp add: serve_others)
  then show "take (Suc (length (calls (serve py requests st1))))
      (calls (snd (get_parser py e3 app_name (serve py requests st1))))
      = calls (serve py requests st1) @ [Locate app_name]"
    by (rule get_parser_uncached_locates)
qed

theorem get_parser_cache_contract_witness:
  "get_parser ascii_methods example_env ''Safari'' empty_state
     = (Inr (parse (Element ''dictionary'' [] [])),
        \<lparr>sdef_cache = [''Safari'' \<mapsto> parse (Element ''dictionary'' [] [])],
         calls = [Locate ''Safari'', Fetch ''/Applications/Safari.app'']\<rparr>)
   \<and> serve ascii_methods [(finder_env, ''Finder''), (failing_env, ''Mail'')]
        \<lparr>sdef_cache = [''Safari'' \<mapsto> parse (Element ''dictionary'' [] [])],
         calls = [Locate ''Safari'', Fetch ''/Applications/Safari.app'']\<rparr>
     = \<lparr>sdef_cache = [''Safari'' \<mapsto> parse (Element ''dictionary'' [] []),
                      ''Finder'' \<mapsto> parse (Element ''dictionary'' [] [])],
        calls = [Locate ''Safari'', Fetch ''/Applications/Safari.app'',
                 Locate ''Finder'', Fetch ''/System/Finder.app'', Locate ''Mail'']\<rparr>
   \<and> get_parser ascii_methods failing_env ''Safari''
        \<lparr>sdef_cache = [''Safari'' \<mapsto> parse (Element ''dictionary'' [] []),
                      ''Finder'' \<mapsto> parse (Element ''dictionary'' [] [])],
         calls = [Locate ''Safari'', Fetch ''/Applications/Safari.app'',
                  Locate ''Finder'', Fetch ''/System/Finder.app'', Locate ''Mail'']\<rparr>
     = (Inr (parse (Element ''dictionary'' [] [])),
        \<lparr>sdef_cache = [''Safari'' \<mapsto> parse (Element ''dictionary'' [] []),
                      ''Finder'' \<mapsto> parse (Element ''dictionary'' [] [])],
         calls = [Locate ''Safari'', Fetch ''/Applications/Safari.app'',
                  Locate ''Finder'', Fetch ''/System/Finder.app'', Locate ''Mail'']\<rparr>)
   \<and> get_parser ascii_methods failing_env ''Safari'' empty_state
     = (Inl (ValueError ''Could not get SDEF for /Applications/Safari.app. The app may not be scriptable. stderr: no sdef''),
        \<lparr>sdef_cache = Map.empty, calls = [Locate ''Safari'', Fetch ''/Applications/Safari.app'']\<rparr>)
   \<and> take 4 (calls (snd (get_parser ascii_methods example_env ''Safari''
        \<lparr>sdef_cache = Map.empty, calls = [Locate ''Safari'', Fetch ''/Applications/Safari.app'']\<rparr>)))
     = [Locate ''Safari'', Fetch ''/Applications/Safari.app'',
        Locate ''Safari'', Fetch ''/Applications/Safari.app'']"
proof -
  let ?d = "parse (Element ''dictionary'' [] [])"
  let ?stA = "\<lparr>sdef_cache = [''Safari'' \<mapsto> ?d],
         calls = [Locate ''Safari'', Fetch ''/Applications/Safari.app'']\<rparr>"
  let ?stB = "\<lparr>sdef_cache = [''Safari'' \<mapsto> ?d, ''Finder'' \<mapsto> ?d],
        calls = [Locate ''Safari'', Fetch ''/Applications/Safari.app'',
                 Locate ''Finder'', Fetch ''/System/Finder.app'', Locate ''Mail'']\<rparr>"
  let ?stF = "\<lparr>sdef_cache = Map.empty,
        calls = [Locate ''Safari'', Fetch ''/Applications/Safari.app'']\<rparr>"
  let ?exn = "ValueError ''Could not get SDEF for /Applications/Safari.app. The app may not be scriptable. stderr: no sdef''"
  have ok: "get_parser ascii_methods example_env ''Safari'' empty_state = (Inr ?d, ?stA)"
    by (simp add: get_parser_def load_parser_def get_sdef_xml_def SDEFParser_def example_env_def
        empty_state_def)
  have later: "serve ascii_methods [(finder_env, ''Finder''), (failing_env, ''Mail'')] ?stA = ?stB"
    by (simp add: get_parser_def load_parser_def get_sdef_xml_def SDEFParser_def finder_env_def
        failing_env_def)
  have sp: "strip ascii_methods ''no sdef'' = ''no sdef''"
    by code_simp
  have bad: "get_parser ascii_methods failing_env ''Safari'' empty_state = (Inl ?exn, ?stF)"
    by (simp add: get_parser_def load_parser_def get_sdef_xml_def failing_env_def empty_state_def sp)
  have found: "find_app_path example_env ''Safari'' = Some ''/Applications/Safari.app''"
    by (simp add: example_env_def)
  note hit = get_parser_cache_contract
    [of ascii_methods example_env "''Safari''" empty_state ?d ?stA failing_env]
  note miss = get_parser_cache_contract
    [of ascii_methods failing_env "''Safari''" empty_state _ ?stF example_env ?exn]
  from hit ok
  have "get_parser ascii_methods failing_env ''Safari''
      (serve ascii_methods [(finder_env, ''Finder''), (failing_env, ''Mail'')] ?stA)
      = (Inr ?d, serve ascii_methods [(finder_env, ''Finder''), (failing_env, ''Mail'')] ?stA)"
    by blast
  then have again: "get_parser ascii_methods failing_env ''Safari'' ?stB = (Inr ?d, ?stB)"
    unfolding later .
  from miss bad found
  have "take (Suc (Suc (length (calls ?stF))))
      (calls (snd (get_parser ascii_methods example_env ''Safari'' ?stF)))
      = calls ?stF @ [Locate ''Safari'', Fetch ''/Applications/Safari.app'']"
    by blast
  then have retry: "take 4 (calls (snd (get_parser ascii_methods example_env ''Safari'' ?stF)))
      = [Locate ''Safari'', Fetch ''/Applications/Safari.app'',
         Locate ''Safari'', Fetch ''/Applications/Safari.app'']"
    by (simp add: eval_nat_numeral)
  show ?thesis using ok later again bad retry by simp
qed

section \<open>Lookups by name\<close>

lemma nested_results_eq:
  "foldl (\<lambda>results s. foldl (\<lambda>results x. if P x then results @ [f x s] else results) results (g s))
     acc ss
   = acc @ concat (map (\<lambda>s. map (\<lambda>x. f x s) (filter P (g s))) ss)"
  by (induction ss arbitrary: acc) (simp_all add: foldl_append_if)

lemma class_results_eq:
  "class_results py parser class_name
   = concat (map (\<lambda>s. map (\<lambda>c. fmt_class_detail c (suite_name s))
                          (filter (\<lambda>c. lower py (cls_name c) = lower py class_name) (classes s)))
       (suites parser))"
  unfolding class_results_def
  using nested_results_eq [of "\<lambda>c. lower py (cls_name c) = lower py class_name"
      "\<lambda>c s. fmt_class_detail c (suite_name s)" classes "[]" "suites parser"]
  by simp

lemma join_Cons: "ys \<noteq> [] \<Longrightarrow> join sep (x # ys) = x @ sep @ join sep ys"
  by (cases ys) simp_all

lemma join_append:
  "xs \<noteq> [] \<Longrightarrow> ys \<noteq> [] \<Longrightarrow> join sep (xs @ ys) = join sep xs @ sep @ join sep ys"
proof (induction xs)
  case Nil
  then show ?case by simp
next
  case (Cons x xs)
  show ?case
  proof (cases "xs = []")
    case True
    with Cons.prems show ?thesis by (simp add: join_Cons)
  next
    case False
    with Cons show ?thesis by (simp add: join_Cons)
  qed
qed

lemma join_around:
  "xs \<noteq> [] \<Longrightarrow>
     join sep (xs @ m # ys) = join sep xs @ sep @ m @ (if ys = [] then [] else sep @ join sep ys)"
  using join_append [of xs "m # ys" sep] by (simp add: join_Cons)

lemma extension_lines:
  assumes "is_extension cls"
  shows "fmt_class_detail_lines cls sn
    = ([''CLASS: '' @ cls_name cls @ (if sn \<noteq> [] then ''  ['' @ sn @ '']'' else [])]
       @ (if inherits cls \<noteq> [] then [''  Inherits: '' @ inherits cls] else [])
       @ (if plural cls \<noteq> [] then [''  Plural: '' @ plural cls] else []))
      @ ''  (class extension)''
      # drop (Suc (length
            ([''CLASS: '' @ cls_name cls @ (if sn \<noteq> [] then ''  ['' @ sn @ '']'' else [])]
             @ (if inherits cls \<noteq> [] then [''  Inherits: '' @ inherits cls] else [])
             @ (if plural cls \<noteq> [] then [''  Plural: '' @ plural cls] else []))))
          (fmt_class_detail_lines cls sn)"
  using assms by (simp add: fmt_class_detail_lines_def Let_def append_each_eq)

text \<open>
  C4, as the program has it. Every class of every suite whose name equals the query
  once both are lowered is rendered in the results of \<open>get_class\<close>, under the name of
  its suite, and the output is these renderings joined by blank lines: the results are
  exactly the matching classes, suite by suite, in order, so a class and a
  class-extension of one name are both among them. The parser flags the first with
  \<open>is_extension = False\<close> and the second with \<open>is_extension = True\<close>, and the rendering
  of a flagged class has the line \<open>(class extension)\<close> after its header lines. Nothing
  is said of the rendering of a class that is not flagged: its own text may give the
  same line.
\<close>

theorem get_class_multi_hit:
  assumes "suite \<in> set (suites parser)" and "cls \<in> set (classes suite)"
    and "lower py (cls_name cls) = lower py class_name"
  shows "fmt_class_detail cls (suite_name suite) \<in> set (class_results py parser class_name)
    \<and> get_class_body py class_name parser = join (nl @ nl) (class_results py parser class_name)
    \<and> class_results py parser class_name
        = concat (map (\<lambda>s. map (\<lambda>c. fmt_class_detail c (suite_name s))
                               (filter (\<lambda>c. lower py (cls_name c) = lower py class_name) (classes s)))
            (suites parser))
    \<and> (is_extension cls \<longrightarrow>
          ''  (class extension)'' \<in> set (fmt_class_detail_lines cls (suite_name suite))
          \<and> (\<exists>before after.
                fmt_class_detail cls (suite_name suite)
                  = before @ nl @ ''  (class extension)'' @ after
                \<and> (after = [] \<or> (\<exists>rest. after = nl @ rest))))
    \<and> is_extension (parse_class el) = False
    \<and> is_extension (parse_extension el) = True"
proof -
  have mem: "fmt_class_detail cls (suite_name suite) \<in> set (class_results py parser class_name)"
    unfolding class_results_eq using assms by auto
  then have "class_results py parser class_name \<noteq> []" by auto
  then have out: "get_class_body py class_name parser
      = join (nl @ nl) (class_results py parser class_name)"
    by (simp add: get_class_body_def Let_def)
  have marked: "''  (class extension)'' \<in> set (fmt_class_detail_lines cls (suite_name suite))"
    if "is_extension cls"
    using that by (simp add: fmt_class_detail_lines_def Let_def append_each_eq)
  have inside: "\<exists>before after.
      fmt_class_detail cls (suite_name suite) = before @ nl @ ''  (class extension)'' @ after
      \<and> (after = [] \<or> (\<exists>rest. after = nl @ rest))"
    if ext: "is_extension cls"
  proof -
    define pre where "pre =
      [''CLASS: '' @ cls_name cls
         @ (if suite_name suite \<noteq> [] then ''  ['' @ suite_name suite @ '']'' else [])]
      @ (if inherits cls \<noteq> [] then [''  Inherits: '' @ inherits cls] else [])
      @ (if plural cls \<noteq> [] then [''  Plural: '' @ plural cls] else [])"
    define post where
      "post = drop (Suc (length pre)) (fmt_class_detail_lines cls (suite_name suite))"
    have ne: "pre \<noteq> []" by (simp add: pre_def)
    have "fmt_class_detail_lines cls (suite_name suite) = pre @ ''  (class extension)'' # post"
      unfolding post_def pre_def using extension_lines [OF ext, of "suite_name suite"] .
    then have "fmt_class_detail cls (suite_name suite)
        = join nl pre @ nl @ ''  (class extension)''
          @ (if post = [] then [] else nl @ join nl post)"
      by (simp add: fmt_class_detail_def join_around [OF ne])
    then show ?thesis by (cases "post = []") auto
  qed
  have flags: "is_extension (parse_class el) = False" "is_extension (parse_extension el) = True"
    by (simp_all add: parse_class_def parse_extension_def)
  show ?thesis using mem out class_results_eq marked inside flags by blast
qed

theorem get_class_multi_hit_witness:
  "get_class_body ascii_methods ''DOCUMENT'' example_doc
     = ''CLASS: document  [Standard Suite]'' @ nl @ ''  An open file.'' @ nl
       @ ''  Properties:'' @ nl @ ''    name: text [r]'' @ nl @ nl
       @ ''CLASS: Document  [Text Suite]'' @ nl @ ''  (class extension)'' @ nl
       @ ''  Properties:'' @ nl @ ''    contents: text | list of paragraph''
   \<and> map is_extension (classes (suites example_doc ! 0)) = [False]
   \<and> map is_extension (classes (suites example_doc ! 1)) = [True]
   \<and> ''  (class extension)''
        \<in> set (fmt_class_detail_lines (hd (classes (suites example_doc ! 1))) ''Text Suite'')"
proof -
  have s0: "suites example_doc ! 0 \<in> set (suites example_doc)"
    by (rule nth_mem) code_simp
  have s1: "suites example_doc ! 1 \<in> set (suites example_doc)"
    by (rule nth_mem) code_simp
  have c0: "hd (classes (suites example_doc ! 0)) \<in> set (classes (suites example_doc ! 0))"
    by (rule hd_in_set) code_simp
  have c1: "hd (classes (suites example_doc ! 1)) \<in> set (classes (suites example_doc ! 1))"
    by (rule hd_in_set) code_simp
  have n0: "lower ascii_methods (cls_name (hd (classes (suites example_doc ! 0))))
      = lower ascii_methods ''DOCUMENT''"
    by code_simp
  have n1: "lower ascii_methods (cls_name (hd (classes (suites example_doc ! 1))))
      = lower ascii_methods ''DOCUMENT''"
    by code_simp
  have name1: "suite_name (suites example_doc ! 1) = ''Text Suite''"
    by code_simp
  have flags: "map is_extension (classes (suites example_doc ! 0)) = [False]"
    "map is_extension (classes (suites example_doc ! 1)) = [True]"
    by code_simp+
  have ext: "is_extension (hd (classes (suites example_doc ! 1)))"
    by code_simp
  have res: "join (nl @ nl) (class_results ascii_methods example_doc ''DOCUMENT'')
     = ''CLASS: document  [Standard Suite]'' @ nl @ ''  An open file.'' @ nl
       @ ''  Properties:'' @ nl @ ''    name: text [r]'' @ nl @ nl
       @ ''CLASS: Document  [Text Suite]'' @ nl @ ''  (class extension)'' @ nl
       @ ''  Properties:'' @ nl @ ''    contents: text | list of paragraph''"
    by code_simp
  from get_class_multi_hit [OF s0 c0 n0]
  have out: "get_class_body ascii_methods ''DOCUMENT'' example_doc
      = join (nl @ nl) (class_results ascii_methods example_doc ''DOCUMENT'')"
    by blast
  from get_class_multi_hit [OF s1 c1 n1] ext
  have marked: "''  (class extension)''
      \<in> set (fmt_class_detail_lines (hd (classes (suites example_doc ! 1)))
               (suite_name (suites example_doc ! 1)))"
    by blast
  show ?thesis
    using out marked flags unfolding res name1 by simp
qed

text \<open>
  C4 as stated fails where it says that the marker tells the two apart: a class whose
  description is the text \<open>(class extension)\<close> and a class-extension of the same name
  without a description are both found, one flagged and one not, and their two
  renderings are the same text.
\<close>

theorem get_class_same_rendering:
  "map (map is_extension) (map classes (suites (parse
      (Element ''dictionary'' []
         [Element ''suite'' [(''name'', ''S'')]
            [Element ''class'' [(''name'', ''window''), (''description'', ''(class extension)'')] [],
             Element ''class-extension'' [(''name'', ''window'')] []]])))) = [[False, True]]
   \<and> class_results ascii_methods (parse
      (Element ''dictionary'' []
         [Element ''suite'' [(''name'', ''S'')]
            [Element ''class'' [(''name'', ''window''), (''description'', ''(class extension)'')] [],
             Element ''class-extension'' [(''name'', ''window'')] []]])) ''window''
       = [''CLASS: window  [S]'' @ nl @ ''  (class extension)'',
          ''CLASS: window  [S]'' @ nl @ ''  (class extension)'']
   \<and> get_class_body ascii_methods ''window'' (parse
      (Element ''dictionary'' []
         [Element ''suite'' [(''name'', ''S'')]
            [Element ''class'' [(''name'', ''window''), (''description'', ''(class extension)'')] [],
             Element ''class-extension'' [(''name'', ''window'')] []]]))
       = ''CLASS: window  [S]'' @ nl @ ''  (class extension)'' @ nl @ nl
         @ ''CLASS: window  [S]'' @ nl @ ''  (class extension)''"
  by (simp add: get_class_body_def class_results_def parse_def parse_suite_def append_each_def
      findall_def parse_class_def parse_extension_def get_or_def get_def
      fmt_class_detail_def fmt_class_detail_lines_def nl_def)

lemma command_results_eq:
  "command_results py parser command_name
   = concat (map (\<lambda>s. map (\<lambda>c. fmt_command_detail c (suite_name s))
                          (filter (\<lambda>c. lower py (cmd_name c) = lower py command_name) (commands s)))
       (suites parser))"
  unfolding command_results_def
  using nested_results_eq [of "\<lambda>c. lower py (cmd_name c) = lower py command_name"
      "\<lambda>c s. fmt_command_detail c (suite_name s)" commands "[]" "suites parser"]
  by simp

text \<open>
  C6, as the program has it. For two queries that are equal once lowered, \<open>get_command\<close>
  finds the same definitions; when there is at least one, the two outputs are identical;
  when there is none, each output is the not-found message with the query as it was typed
  and the same list of available commands.
\<close>

theorem get_command_case_insensitive:
  assumes "lower py q1 = lower py q2"
  shows "command_results py parser q1 = command_results py parser q2
    \<and> (command_results py parser q1 \<noteq> [] \<longrightarrow>
          get_command_body py q1 parser = get_command_body py q2 parser)
    \<and> (command_results py parser q1 = [] \<longrightarrow>
          get_command_body py q1 parser
            = ''Command '' @ quote @ q1 @ quote @ '' not found.'' @ nl
              @ ''Available: '' @ join '', '' (all_cmds parser)
          \<and> get_command_body py q2 parser
            = ''Command '' @ quote @ q2 @ quote @ '' not found.'' @ nl
              @ ''Available: '' @ join '', '' (all_cmds parser))"
proof -
  have same: "command_results py parser q1 = command_results py parser q2"
    unfolding command_results_eq using assms by simp
  then show ?thesis
    by (simp add: get_command_body_def Let_def)
qed

theorem get_command_case_insensitive_witness:
  "lower ascii_methods ''MAKE'' = lower ascii_methods ''make''
   \<and> get_command_body ascii_methods ''MAKE'' example_doc = get_command_body ascii_methods ''make'' example_doc
   \<and> get_command_body ascii_methods ''make'' example_doc
       = ''COMMAND: make  [Standard Suite]'' @ nl @ ''  Returns: specifier'' @ nl @ nl
         @ ''COMMAND: Make  [Text Suite]''"
proof -
  have eq: "lower ascii_methods ''MAKE'' = lower ascii_methods ''make''"
    by code_simp
  have found: "command_results ascii_methods example_doc ''MAKE'' \<noteq> []"
    by code_simp
  have out: "get_command_body ascii_methods ''make'' example_doc
       = ''COMMAND: make  [Standard Suite]'' @ nl @ ''  Returns: specifier'' @ nl @ nl
         @ ''COMMAND: Make  [Text Suite]''"
    by code_simp
  show ?thesis
    using get_command_case_insensitive [OF eq, of example_doc] eq found out by simp
qed

text \<open>
  C6 as stated fails when no command matches: the message repeats the query as typed,
  so \<open>Make\<close> and \<open>make\<close> give two different outputs on a dictionary without suites.
\<close>

theorem get_command_echoes_query:
  "lower ascii_methods ''Make'' = lower ascii_methods ''make''
   \<and> get_command_body ascii_methods ''Make'' (parse (Element ''dictionary'' [] []))
       = ''Command '' @ quote @ ''Make'' @ quote @ '' not found.'' @ nl @ ''Available: ''
   \<and> get_command_body ascii_methods ''make'' (parse (Element ''dictionary'' [] []))
       = ''Command '' @ quote @ ''make'' @ quote @ '' not found.'' @ nl @ ''Available: ''
   \<and> get_command_body ascii_methods ''Make'' (parse (Element ''dictionary'' [] []))
       \<noteq> get_command_body ascii_methods ''make'' (parse (Element ''dictionary'' [] []))"
proof -
  have eq: "lower ascii_methods ''Make'' = lower ascii_methods ''make''"
    by code_simp
  have su: "suites (parse (Element ''dictionary'' [] [])) = []"
    by (simp add: parse_def append_each_def findall_def)
  have a: "get_command_body ascii_methods ''Make'' (parse (Element ''dictionary'' [] []))
       = ''Command '' @ quote @ ''Make'' @ quote @ '' not found.'' @ nl @ ''Available: ''"
    by (simp add: get_command_body_def command_results_def all_cmds_def sorted_set_def su)
  have b: "get_command_body ascii_methods ''make'' (parse (Element ''dictionary'' [] []))
       = ''Command '' @ quote @ ''make'' @ quote @ '' not found.'' @ nl @ ''Available: ''"
    by (simp add: get_command_body_def command_results_def all_cmds_def sorted_set_def su)
  show ?thesis unfolding a b using eq by simp
qed

lemma enum_results_eq:
  "enum_results py parser q
   = concat (map (\<lambda>s. map (\<lambda>en. fmt_enum_detail en (suite_name s))
                          (filter (\<lambda>en. lower py (enum_name en) = lower py q) (enumerations s)))
       (suites parser))"
  unfolding enum_results_def
  using nested_results_eq [of "\<lambda>en. lower py (enum_name en) = lower py q"
      "\<lambda>en s. fmt_enum_detail en (suite_name s)" enumerations "[]" "suites parser"]
  by simp

lemma sorted_set_props:
  "sorted (sorted_set xs) \<and> distinct (sorted_set xs) \<and> set (sorted_set xs) = set xs"
  by (simp add: sorted_set_def)

text \<open>
  C7, as the program has it. When no enumeration of any suite has the queried name once
  both are lowered, \<open>get_enumeration\<close> finds nothing and answers with the not-found
  message followed by the alternatives: a list without duplicates that holds exactly the
  names of the enumerations of all suites of the document, sorted as \<open>sorted\<close> sorts
  strings, by code point (the order of \<^typ>\<open>string\<close> here, byte by byte, is that order
  on UTF-8), so that every upper-case ASCII letter comes before every lower-case one.
\<close>

theorem get_enumeration_not_found:
  assumes "\<forall>suite \<in> set (suites parser). \<forall>enum \<in> set (enumerations suite).
             lower py (enum_name enum) \<noteq> lower py q"
  shows "enum_results py parser q = []
    \<and> get_enumeration_body py q parser
        = ''Enum '' @ quote @ q @ quote @ '' not found.'' @ nl
          @ ''Available: '' @ join '', '' (all_enums parser)
    \<and> sorted (all_enums parser)
    \<and> distinct (all_enums parser)
    \<and> set (all_enums parser)
        = (\<Union>suite \<in> set (suites parser). enum_name ` set (enumerations suite))"
proof -
  have "filter (\<lambda>en. lower py (enum_name en) = lower py q) (enumerations s) = []"
    if "s \<in> set (suites parser)" for s
    using that assms by (auto simp: filter_empty_conv)
  then have none: "enum_results py parser q = []"
    unfolding enum_results_eq by simp
  then have out: "get_enumeration_body py q parser
        = ''Enum '' @ quote @ q @ quote @ '' not found.'' @ nl
          @ ''Available: '' @ join '', '' (all_enums parser)"
    by (simp add: get_enumeration_body_def)
  have names: "set (all_enums parser)
        = (\<Union>suite \<in> set (suites parser). enum_name ` set (enumerations suite))"
    unfolding all_enums_def using sorted_set_props by auto
  show ?thesis
    using none out names sorted_set_props unfolding all_enums_def by blast
qed

theorem get_enumeration_not_found_witness:
  "enum_results ascii_methods example_doc ''nonexistent'' = []
   \<and> map enum_name (concat (map enumerations (suites example_doc)))
       = [''save options'', ''alignment'', ''save options'']
   \<and> all_enums example_doc = [''alignment'', ''save options'']
   \<and> get_enumeration_body ascii_methods ''nonexistent'' example_doc
       = ''Enum '' @ quote @ ''nonexistent'' @ quote @ '' not found.'' @ nl
         @ ''Available: alignment, save options''"
proof -
  have miss: "\<forall>suite \<in> set (suites example_doc). \<forall>enum \<in> set (enumerations suite).
      lower ascii_methods (enum_name enum) \<noteq> lower ascii_methods ''nonexistent''"
    by code_simp
  have names: "map enum_name (concat (map enumerations (suites example_doc)))
       = [''save options'', ''alignment'', ''save options'']"
    by code_simp
  have alts: "all_enums example_doc = [''alignment'', ''save options'']"
    by code_simp
  show ?thesis
    using get_enumeration_not_found [OF miss] names alts by simp
qed

text \<open>
  C7 as stated fails where it says the list is alphabetical: with the enumerations
  \<open>alignment\<close> and \<open>Zoom\<close> the alternatives are \<open>Zoom, alignment\<close>, which is not the
  order of the alphabet, as lowering the names shows.
\<close>

theorem get_enumeration_code_point_order:
  "all_enums (parse
      (Element ''dictionary'' []
         [Element ''suite'' [(''name'', ''S'')]
            [Element ''enumeration'' [(''name'', ''alignment'')] [],
             Element ''enumeration'' [(''name'', ''Zoom'')] []]])) = [''Zoom'', ''alignment'']
   \<and> get_enumeration_body ascii_methods ''nonexistent'' (parse
      (Element ''dictionary'' []
         [Element ''suite'' [(''name'', ''S'')]
            [Element ''enumeration'' [(''name'', ''alignment'')] [],
             Element ''enumeration'' [(''name'', ''Zoom'')] []]]))
       = ''Enum '' @ quote @ ''nonexistent'' @ quote @ '' not found.'' @ nl
         @ ''Available: Zoom, alignment''
   \<and> map (lower ascii_methods) [''Zoom'', ''alignment''] = [''zoom'', ''alignment'']
   \<and> \<not> sorted [''zoom'', ''alignment'']"
  by code_simp

section \<open>Suite detail\<close>

lemma first_suite_split:
  "\<forall>s \<in> set before. lower py (suite_name s) \<noteq> lower py q \<Longrightarrow> lower py (suite_name suite) = lower py q \<Longrightarrow>
     first_suite py (before @ suite # after) q = Some suite"
  by (induction before) simp_all

text \<open>
  C10. When several suites have the queried name once both are lowered, \<open>get_suite_detail\<close>
  renders the first of them in document order and nothing else: whatever suites follow
  the first match, matching or not, the output is the rendering of that first match.
\<close>

theorem get_suite_detail_first_match:
  assumes "suites parser = before @ suite # after"
    and "\<forall>s \<in> set before. lower py (suite_name s) \<noteq> lower py q"
    and "lower py (suite_name suite) = lower py q"
  shows "get_suite_detail_body py q parser = fmt_suite_detail py suite"
  using first_suite_split [OF assms(2,3), of after] assms(1)
  by (simp add: get_suite_detail_body_def)

theorem get_suite_detail_first_match_witness:
  "map suite_name (suites example_doc) = [''Standard Suite'', ''Text Suite'', ''TEXT SUITE'']
   \<and> lower ascii_methods (suite_name (suites example_doc ! 1)) = lower ascii_methods ''text suite''
   \<and> lower ascii_methods (suite_name (suites example_doc ! 2)) = lower ascii_methods ''text suite''
   \<and> get_suite_detail_body ascii_methods ''text suite'' example_doc = fmt_suite_detail ascii_methods (suites example_doc ! 1)
   \<and> get_suite_detail_body ascii_methods ''text suite'' example_doc \<noteq> fmt_suite_detail ascii_methods (suites example_doc ! 2)
   \<and> fmt_suite_detail ascii_methods (suites example_doc ! 1)
       = double_bar @ double_bar @ double_bar @ '' Text Suite '' @ double_bar @ double_bar @ double_bar
         @ nl @ nl @ ''COMMANDS:'' @ nl @ ''  Make'' @ nl @ nl
         @ ''CLASSES:'' @ nl @ ''  Document [ext] (1p 0e)'' @ nl @ nl
         @ ''ENUMS:'' @ nl @ ''  alignment: left''"
proof -
  have split: "suites example_doc
      = [suites example_doc ! 0] @ (suites example_doc ! 1) # [suites example_doc ! 2]"
    by code_simp
  have before: "\<forall>s \<in> set [suites example_doc ! 0]. lower ascii_methods (suite_name s) \<noteq> lower ascii_methods ''text suite''"
    by code_simp
  have hit: "lower ascii_methods (suite_name (suites example_doc ! 1)) = lower ascii_methods ''text suite''"
    by code_simp
  have later: "lower ascii_methods (suite_name (suites example_doc ! 2)) = lower ascii_methods ''text suite''"
    by code_simp
  have names: "map suite_name (suites example_doc) = [''Standard Suite'', ''Text Suite'', ''TEXT SUITE'']"
    by code_simp
  have differ: "fmt_suite_detail ascii_methods (suites example_doc ! 1) \<noteq> fmt_suite_detail ascii_methods (suites example_doc ! 2)"
    by code_simp
  have rendered: "fmt_suite_detail ascii_methods (suites example_doc ! 1)
       = double_bar @ double_bar @ double_bar @ '' Text Suite '' @ double_bar @ double_bar @ double_bar
         @ nl @ nl @ ''COMMANDS:'' @ nl @ ''  Make'' @ nl @ nl
         @ ''CLASSES:'' @ nl @ ''  Document [ext] (1p 0e)'' @ nl @ nl
         @ ''ENUMS:'' @ nl @ ''  alignment: left''"
    by code_simp
  show ?thesis
    using get_suite_detail_first_match [OF split before hit] hit later names differ rendered
    by simp
qed

section \<open>Search\<close>

lemma foldl_append_concat:
  assumes "\<And>h x. f h x = h @ g x"
  shows "foldl f acc xs = acc @ concat (map g xs)"
  by (induction xs arbitrary: acc) (simp_all add: assms)

lemma search_command_eq:
  "search_command py sn q hits cmd = hits @ search_command py sn q [] cmd"
  by (simp add: search_command_def)

lemma search_property_fold:
  "foldl (search_property py sn q cls) hits props
   = hits @ map (prop_hit sn cls)
       (filter (\<lambda>p. str_in q (lower py (prop_name p)) \<or> str_in q (lower py (prop_description p))) props)"
proof -
  have "search_property py sn q cls
      = (\<lambda>h p. if str_in q (lower py (prop_name p)) \<or> str_in q (lower py (prop_description p))
                then h @ [prop_hit sn cls p] else h)"
    by (intro ext) (simp add: search_property_def)
  then show ?thesis by (simp only: foldl_append_if)
qed

lemma search_class_eq:
  "search_class py sn q hits cls
   = hits
     @ (if str_in q (lower py (cls_name cls)) \<or> str_in q (lower py (cls_description cls))
        then [cls_hit sn cls] else [])
     @ map (prop_hit sn cls)
         (filter (\<lambda>p. str_in q (lower py (prop_name p)) \<or> str_in q (lower py (prop_description p)))
            (properties cls))"
  by (simp add: search_class_def Let_def search_property_fold)

lemma search_enumerator_fold:
  "foldl (search_enumerator py sn q enum) hits vs
   = hits @ map (val_hit sn enum) (filter (\<lambda>v. str_in q (lower py (val_name v))) vs)"
proof -
  have "search_enumerator py sn q enum
      = (\<lambda>h v. if str_in q (lower py (val_name v)) then h @ [val_hit sn enum v] else h)"
    by (intro ext) (simp add: search_enumerator_def)
  then show ?thesis by (simp only: foldl_append_if)
qed

lemma search_enum_eq:
  "search_enum py sn q hits enum
   = hits
     @ (if str_in q (lower py (enum_name enum)) then [enum_hit sn enum]
        else map (val_hit sn enum)
               (filter (\<lambda>v. str_in q (lower py (val_name v))) (enum_values enum)))"
  by (simp add: search_enum_def search_enumerator_fold)

lemma search_suite_eq:
  "search_suite py q hits s
   = hits
     @ concat (map (search_command py (suite_name s) q []) (commands s))
     @ concat (map (search_class py (suite_name s) q []) (classes s))
     @ concat (map (search_enum py (suite_name s) q []) (enumerations s))"
proof -
  have c: "foldl (search_command py sn q) h xs = h @ concat (map (search_command py sn q []) xs)"
    for sn h xs
    by (rule foldl_append_concat) (rule search_command_eq)
  have k: "foldl (search_class py sn q) h xs = h @ concat (map (search_class py sn q []) xs)"
    for sn h xs
    by (rule foldl_append_concat) (simp add: search_class_eq)
  have e: "foldl (search_enum py sn q) h xs = h @ concat (map (search_enum py sn q []) xs)"
    for sn h xs
    by (rule foldl_append_concat) (simp add: search_enum_eq)
  show ?thesis
    by (simp add: search_suite_def Let_def c k e)
qed

lemma search_hits_eq:
  "search_hits py parser query
   = concat (map (\<lambda>s.
        concat (map (search_command py (suite_name s) (lower py query) []) (commands s))
        @ concat (map (search_class py (suite_name s) (lower py query) []) (classes s))
        @ concat (map (search_enum py (suite_name s) (lower py query) []) (enumerations s)))
       (suites parser))"
proof -
  have "foldl (search_suite py q) acc ss
      = acc @ concat (map (\<lambda>s.
          concat (map (search_command py (suite_name s) q []) (commands s))
          @ concat (map (search_class py (suite_name s) q []) (classes s))
          @ concat (map (search_enum py (suite_name s) q []) (enumerations s))) ss)" for q acc ss
    by (rule foldl_append_concat) (simp add: search_suite_eq)
  then show ?thesis by (simp add: search_hits_def)
qed



text \<open>
  C8. In \<open>search_dictionary\<close> a class contributes a \<open>CLS\<close> line when the lowered query
  occurs in its lowered name or description, and, whether or not it does, one \<open>PROP\<close>
  line for each of its properties whose lowered name or description contains the query,
  in order. The hits of the whole search are, suite by suite, those of its commands, then
  of its classes, then of its enumerations.
\<close>

theorem search_class_properties_independent:
  "search_class py sn q hits cls
     = hits
       @ (if str_in q (lower py (cls_name cls)) \<or> str_in q (lower py (cls_description cls))
          then [cls_hit sn cls] else [])
       @ map (prop_hit sn cls)
           (filter (\<lambda>p. str_in q (lower py (prop_name p)) \<or> str_in q (lower py (prop_description p)))
              (properties cls))
   \<and> search_hits py parser query
     = concat (map (\<lambda>s.
          concat (map (search_command py (suite_name s) (lower py query) []) (commands s))
          @ concat (map (search_class py (suite_name s) (lower py query) []) (classes s))
          @ concat (map (search_enum py (suite_name s) (lower py query) []) (enumerations s)))
         (suites parser))"
  using search_class_eq search_hits_eq by simp

theorem search_class_properties_independent_witness:
  "\<not> str_in ''name'' (lower ascii_methods ''document'') \<and> \<not> str_in ''name'' (lower ascii_methods ''An open file.'')
   \<and> search_class ascii_methods ''Standard Suite'' ''name'' [] (hd (classes (suites example_doc ! 0)))
       = [''  PROP [Standard Suite] document.name: text [r]'']
   \<and> search_class ascii_methods ''Standard Suite'' ''open'' [] (hd (classes (suites example_doc ! 0)))
       = [''  CLS  [Standard Suite] document (1p 0e)'']
   \<and> search_class ascii_methods ''Standard Suite'' ''e'' [] (hd (classes (suites example_doc ! 0)))
       = [''  CLS  [Standard Suite] document (1p 0e)'',
          ''  PROP [Standard Suite] document.name: text [r]'']
   \<and> search_hits ascii_methods example_doc ''NAME'' = [''  PROP [Standard Suite] document.name: text [r]'']"
proof -
  have nm: "cls_name (hd (classes (suites example_doc ! 0))) = ''document''"
    "cls_description (hd (classes (suites example_doc ! 0))) = ''An open file.''"
    by code_simp+
  have a: "\<not> str_in ''name'' (lower ascii_methods ''document'')" "\<not> str_in ''name'' (lower ascii_methods ''An open file.'')"
    "\<not> str_in ''open'' (lower ascii_methods ''document'')" "str_in ''open'' (lower ascii_methods ''An open file.'')"
    "str_in ''e'' (lower ascii_methods ''document'')"
    by code_simp+
  have h: "cls_hit ''Standard Suite'' (hd (classes (suites example_doc ! 0)))
      = ''  CLS  [Standard Suite] document (1p 0e)''"
    by code_simp
  have p1: "map (prop_hit ''Standard Suite'' (hd (classes (suites example_doc ! 0))))
        (filter (\<lambda>p. str_in ''name'' (lower ascii_methods (prop_name p))
                   \<or> str_in ''name'' (lower ascii_methods (prop_description p)))
           (properties (hd (classes (suites example_doc ! 0)))))
      = [''  PROP [Standard Suite] document.name: text [r]'']"
    by code_simp
  have p2: "map (prop_hit ''Standard Suite'' (hd (classes (suites example_doc ! 0))))
        (filter (\<lambda>p. str_in ''open'' (lower ascii_methods (prop_name p))
                   \<or> str_in ''open'' (lower ascii_methods (prop_description p)))
           (properties (hd (classes (suites example_doc ! 0)))))
      = []"
    by code_simp
  have p3: "map (prop_hit ''Standard Suite'' (hd (classes (suites example_doc ! 0))))
        (filter (\<lambda>p. str_in ''e'' (lower ascii_methods (prop_name p))
                   \<or> str_in ''e'' (lower ascii_methods (prop_description p)))
           (properties (hd (classes (suites example_doc ! 0)))))
      = [''  PROP [Standard Suite] document.name: text [r]'']"
    by code_simp
  have all: "concat (map (\<lambda>s.
          concat (map (search_command ascii_methods (suite_name s) (lower ascii_methods ''NAME'') []) (commands s))
          @ concat (map (search_class ascii_methods (suite_name s) (lower ascii_methods ''NAME'') []) (classes s))
          @ concat (map (search_enum ascii_methods (suite_name s) (lower ascii_methods ''NAME'') []) (enumerations s)))
         (suites example_doc))
      = [''  PROP [Standard Suite] document.name: text [r]'']"
    by code_simp
  show ?thesis
    using
      search_class_properties_independent [of ascii_methods "''Standard Suite''" "''name''" "[]"
        "hd (classes (suites example_doc ! 0))" example_doc "''NAME''"]
      search_class_properties_independent [of ascii_methods "''Standard Suite''" "''open''" "[]"
        "hd (classes (suites example_doc ! 0))" example_doc "''NAME''"]
      search_class_properties_independent [of ascii_methods "''Standard Suite''" "''e''" "[]"
        "hd (classes (suites example_doc ! 0))" example_doc "''NAME''"]
    by (simp only: nm a h p1 p2 p3 all if_True if_False append_Nil append_Nil2 append_Cons simp_thms)
qed

end
